theory Spec2Isabelle
  imports Complex_Main
begin

section \<open>Data model\<close>

text \<open>
  Modelled from the spec: the type declarations of \<^verbatim>\<open>lib/types\<close> (\<^verbatim>\<open>Exam\<close> and its
  parts) are imported by \<^verbatim>\<open>pages/exam.tsx\<close> but are no part of the sources at hand.
  The records below carry the fields that \<^verbatim>\<open>exam.tsx\<close> reads and writes, with the
  meaning section 3 of the specification gives them.

  A JavaScript \<^verbatim>\<open>number\<close> that holds a count or an index is an \<^typ>\<open>int\<close> or a
  \<^typ>\<open>nat\<close>; one that holds marks is an exact rational. Rounding of doubles, overflow
  to infinity and the sign of zero are outside the model: the numbers of an exam are
  finite, and the only non-finite values are the ones a division by zero creates.
  The duration is a whole number of minutes, so that the countdown holds whole
  seconds. \<open>lastAttemptedAt\<close> holds the instant, in milliseconds, whose ISO text the
  page stores.
\<close>

type_synonym answerMap = "string \<rightharpoonup> int"

record question =
  question_id :: string
  question_text :: string
  options :: "string list"
  correctAnswer :: int
  weightage :: rat

record exam_section =
  section_name :: string
  instructions :: "string option"
  negativeMarking :: rat
  questions :: "question list"

record markingScheme =
  defaultWeightage :: rat
  passingPercentage :: rat

record exam =
  exam_id :: string
  title :: string
  duration :: int
  sections :: "exam_section list"
  markingScheme :: markingScheme
  lastAttemptedAt :: "int option"

text \<open>
  The value of the expression \<^verbatim>\<open>(totalScore / divisor) * 100\<close>: a finite number, one
  of the two infinities, or \<^verbatim>\<open>NaN\<close>.
\<close>

datatype jsnum = Finite rat | PosInfinity | NegInfinity | NaN

fun isFinite :: "jsnum \<Rightarrow> bool" where
  "isFinite (Finite _) = True"
| "isFinite _ = False"

text \<open>\<^verbatim>\<open>x / y\<close> on finite operands.\<close>

definition jsDivide :: "rat \<Rightarrow> rat \<Rightarrow> jsnum" where
  "jsDivide x y =
     (if y \<noteq> 0 then Finite (x / y)
      else if x = 0 then NaN
      else if 0 < x then PosInfinity
      else NegInfinity)"

text \<open>\<^verbatim>\<open>x * c\<close> for a finite right operand.\<close>

fun jsTimes :: "jsnum \<Rightarrow> rat \<Rightarrow> jsnum" where
  "jsTimes (Finite x) c = Finite (x * c)"
| "jsTimes PosInfinity c = (if 0 < c then PosInfinity else if c < 0 then NegInfinity else NaN)"
| "jsTimes NegInfinity c = (if 0 < c then NegInfinity else if c < 0 then PosInfinity else NaN)"
| "jsTimes NaN c = NaN"

text \<open>\<^verbatim>\<open>x >= p\<close> for a finite right operand; every comparison with \<^verbatim>\<open>NaN\<close> is false.\<close>

fun jsGe :: "jsnum \<Rightarrow> rat \<Rightarrow> bool" where
  "jsGe (Finite x) p = (p \<le> x)"
| "jsGe PosInfinity p = True"
| "jsGe NegInfinity p = False"
| "jsGe NaN p = False"

section \<open>Scorer (\<^verbatim>\<open>handleSubmit\<close>, lines 133 to 169)\<close>

text \<open>
  The three counters \<^verbatim>\<open>correctAnswers\<close>, \<^verbatim>\<open>wrongAnswers\<close> and \<^verbatim>\<open>totalScore\<close>
  that the two nested \<^verbatim>\<open>forEach\<close> loops update, in this order.
\<close>

type_synonym tally = "nat \<times> nat \<times> rat"

text \<open>
  The answer map is a plain object: \<^verbatim>\<open>{}\<close> at line 25, and a copy with one more
  own property at lines 122 to 125. Its type \<open>answerMap\<close> holds the own properties.
  Reading \<^verbatim>\<open>answers[question.id]\<close> finds an own property first and then the
  members every plain object inherits from \<^verbatim>\<open>Object.prototype\<close>, whose names are
  listed here; only for any other name is the value \<^verbatim>\<open>undefined\<close>.
\<close>

definition objectPrototypeKeys :: "string list" where
  "objectPrototypeKeys =
     [''constructor'', ''__defineGetter__'', ''__defineSetter__'', ''hasOwnProperty'',
      ''__lookupGetter__'', ''__lookupSetter__'', ''isPrototypeOf'', ''propertyIsEnumerable'',
      ''toString'', ''valueOf'', ''__proto__'', ''toLocaleString'']"

text \<open>
  What such a read returns: \<^verbatim>\<open>undefined\<close>, the option index stored, or an inherited
  member (a function, or for \<^verbatim>\<open>__proto__\<close> the prototype object).
\<close>

datatype jsvalue = Undefined | Index int | Inherited

definition readAnswer :: "answerMap \<Rightarrow> string \<Rightarrow> jsvalue" where
  "readAnswer answers key =
     (case answers key of
        Some optionIndex \<Rightarrow> Index optionIndex
      | None \<Rightarrow> if key \<in> set objectPrototypeKeys then Inherited else Undefined)"

text \<open>\<^verbatim>\<open>value === n\<close> for a number \<open>n\<close>: no inherited member is a number.\<close>

fun strictEquals :: "jsvalue \<Rightarrow> int \<Rightarrow> bool" where
  "strictEquals (Index i) n = (i = n)"
| "strictEquals Undefined n = False"
| "strictEquals Inherited n = False"

text \<open>The body of the inner \<^verbatim>\<open>forEach\<close>, for one question of one section.\<close>

definition scoreQuestion :: "answerMap \<Rightarrow> exam_section \<Rightarrow> question \<Rightarrow> tally \<Rightarrow> tally" where
  "scoreQuestion answers sec q t =
     (case t of (correctAnswers, wrongAnswers, totalScore) \<Rightarrow>
        (let userAnswer = readAnswer answers (question_id q) in
         if userAnswer = Undefined then (correctAnswers, wrongAnswers, totalScore)
         else if strictEquals userAnswer (correctAnswer q)
         then (correctAnswers + 1, wrongAnswers, totalScore + weightage q)
         else (correctAnswers, wrongAnswers + 1, totalScore - negativeMarking sec)))"

text \<open>The inner loop over the questions of a section, and the outer one over the sections.\<close>

definition scoreSection :: "answerMap \<Rightarrow> exam_section \<Rightarrow> tally \<Rightarrow> tally" where
  "scoreSection answers sec t = fold (scoreQuestion answers sec) (questions sec) t"

definition scoreSections :: "answerMap \<Rightarrow> exam_section list \<Rightarrow> tally \<Rightarrow> tally" where
  "scoreSections answers secs t = fold (scoreSection answers) secs t"

text \<open>\<^verbatim>\<open>exam.sections.reduce((sum, section) => sum + section.questions.length, 0)\<close>\<close>

definition countQuestions :: "exam \<Rightarrow> nat" where
  "countQuestions e = fold (\<lambda>sec sum. sum + length (questions sec)) (sections e) 0"

text \<open>The divisor of the percentage: \<^verbatim>\<open>totalQuestions * exam.markingScheme.defaultWeightage\<close>.\<close>

definition percentageDivisor :: "exam \<Rightarrow> rat" where
  "percentageDivisor e = of_nat (countQuestions e) * defaultWeightage (markingScheme e)"

record results =
  totalQuestions :: nat
  correctAnswers :: nat
  wrongAnswers :: nat
  score :: rat
  percentage :: jsnum
  timeTaken :: int
  isPassed :: bool
  answers :: answerMap

text \<open>
  The object \<^verbatim>\<open>results\<close> of \<^verbatim>\<open>handleSubmit\<close>. \<open>startTime\<close> is the component's
  \<^verbatim>\<open>startTime\<close> state and \<open>now\<close> the value \<^verbatim>\<open>Date.now()\<close> returns at line 158, both
  in milliseconds; \<^verbatim>\<open>Math.floor\<close> of the quotient is the integer division of HOL.
\<close>

definition computeResults :: "exam \<Rightarrow> answerMap \<Rightarrow> int \<Rightarrow> int \<Rightarrow> results" where
  "computeResults e userAnswers startTime now =
     (case scoreSections userAnswers (sections e) (0, 0, 0) of
        (correct, wrong, totalScore) \<Rightarrow>
          (let pct = jsTimes (jsDivide totalScore (percentageDivisor e)) 100 in
           \<lparr> totalQuestions = countQuestions e,
             correctAnswers = correct,
             wrongAnswers = wrong,
             score = totalScore,
             percentage = pct,
             timeTaken = (now - startTime) div 1000,
             isPassed = jsGe pct (passingPercentage (markingScheme e)),
             answers = userAnswers \<rparr>))"

section \<open>The state of the page and of its surroundings\<close>

text \<open>
  The \<^verbatim>\<open>useState\<close> cells of \<^verbatim>\<open>ExamPage\<close>. The cell \<^verbatim>\<open>answers\<close> is the field
  \<open>answers_st\<close>, since \<open>answers\<close> is already the field of the results. The two
  coordinates of the cursor are integers: the handler of the Previous button can
  store \<open>-1\<close>.
\<close>

record page =
  exam :: "exam option"
  currentSection :: int
  currentQuestion :: int
  answers_st :: answerMap
  timeLeft :: int
  startTime :: int
  error :: "string option"
  isLoading :: bool

text \<open>The initial values of the cells; \<open>t0\<close> is \<^verbatim>\<open>Date.now()\<close> at the first render.\<close>

definition initialPage :: "int \<Rightarrow> page" where
  "initialPage t0 =
     \<lparr> exam = None, currentSection = 0, currentQuestion = 0, answers_st = Map.empty,
       timeLeft = 0, startTime = t0, error = None, isLoading = True \<rparr>"

text \<open>
  An element of a stored list, as the callbacks of \<^verbatim>\<open>find\<close> and \<^verbatim>\<open>findIndex\<close>
  tell the cases apart when they read its \<^verbatim>\<open>id\<close>: an exam; \<^verbatim>\<open>null\<close>, on which the
  read throws; or any other value (a number, a string, an object without \<^verbatim>\<open>id\<close>),
  given by its JSON text, whose \<^verbatim>\<open>id\<close> is \<^verbatim>\<open>undefined\<close>. An object with an \<^verbatim>\<open>id\<close> is
  an exam, as the annotation \<^verbatim>\<open>(e: Exam)\<close> of the callbacks has it.
\<close>

datatype item = ExamItem exam | NullItem | PlainItem string

text \<open>
  What an item of \<^verbatim>\<open>localStorage\<close> holds, as far as the page tells the cases apart:
  the JSON text of a list, the JSON text of a results object, or any other text (one
  that \<^verbatim>\<open>JSON.parse\<close> rejects, or that parses to something that is no list). An
  item that is absent and an item that is the empty string are both falsy for the
  page's \<^verbatim>\<open>||\<close>, and both are \<open>None\<close> here.
\<close>

datatype stored = ExamsJson "item list" | ResultsJson results | OtherText

type_synonym localStorage = "string \<rightharpoonup> stored"

text \<open>
  The reply of the external \<^verbatim>\<open>ExamService.getExamById\<close>: the promise is rejected, or
  it resolves to \<^verbatim>\<open>null\<close>, or to an exam. The service is a parameter of the model.
\<close>

datatype reply = Rejected | NoExam | GotExam exam

section \<open>Exam Data Accessor (\<^verbatim>\<open>loadExam\<close>, lines 33 to 101)\<close>

text \<open>The \<^verbatim>\<open>for\<close> loop of lines 77 to 83, which leaves at the first section with a question.\<close>

fun hasQuestions :: "exam_section list \<Rightarrow> bool" where
  "hasQuestions [] = False"
| "hasQuestions (sec # rest) = (if length (questions sec) > 0 then True else hasQuestions rest)"

text \<open>
  The outcome of a search that calls \<^verbatim>\<open>e.id === examId\<close> on the elements in turn:
  the first match, no match, or the \<^verbatim>\<open>TypeError\<close> of a \<^verbatim>\<open>null\<close> element met before
  any match.
\<close>

datatype 'a found = Found 'a | NotFound | Threw

text \<open>\<^verbatim>\<open>allExams.find((e: Exam) => e.id === examId)\<close>\<close>

fun findExam :: "string \<Rightarrow> item list \<Rightarrow> exam found" where
  "findExam examId [] = NotFound"
| "findExam examId (ExamItem e # rest) = (if exam_id e = examId then Found e else findExam examId rest)"
| "findExam examId (NullItem # rest) = Threw"
| "findExam examId (PlainItem _ # rest) = findExam examId rest"

definition failLoad :: "string \<Rightarrow> page \<Rightarrow> page" where
  "failLoad msg p = p\<lparr> error := Some msg, isLoading := False \<rparr>"

definition finishLoad :: "exam \<Rightarrow> page \<Rightarrow> page" where
  "finishLoad e p = p\<lparr> exam := Some e, timeLeft := duration e * 60, isLoading := False \<rparr>"

text \<open>Lines 58 to 95: the lookup in the database and the validation of what it returns.\<close>

definition loadFromDatabase :: "(string \<Rightarrow> reply) \<Rightarrow> string \<Rightarrow> page \<Rightarrow> page" where
  "loadFromDatabase getExamById examId p =
     (case getExamById examId of
        Rejected \<Rightarrow> failLoad ''Failed to load exam. Please try again.'' p
      | NoExam \<Rightarrow> failLoad ''Exam not found'' p
      | GotExam currentExam \<Rightarrow>
          if length (sections currentExam) = 0 then failLoad ''This exam has no questions'' p
          else if \<not> hasQuestions (sections currentExam)
          then failLoad ''This exam has no questions'' p
          else finishLoad currentExam p)"

text \<open>
  \<^verbatim>\<open>loadExam\<close>. \<open>examId\<close> is the route parameter, which may be missing. Line 45 reads
  the second key only when the first one holds nothing; a text that does not parse to
  a list makes line 47 or 48 throw, and so does a \<^verbatim>\<open>null\<close> element met by the
  search; the \<^verbatim>\<open>catch\<close> of line 96 turns that into the error of line 98.
\<close>

definition loadExam :: "string option \<Rightarrow> localStorage \<Rightarrow> (string \<Rightarrow> reply) \<Rightarrow> page \<Rightarrow> page" where
  "loadExam examId storage getExamById p =
     (case examId of
        None \<Rightarrow> failLoad ''Invalid exam ID'' p
      | Some eid \<Rightarrow>
          if eid = [] then failLoad ''Invalid exam ID'' p
          else
            (case (case storage ''stream_exams_engineering'' of
                     Some item \<Rightarrow> Some item
                   | None \<Rightarrow> storage ''stream_exams_pharmacy'') of
               None \<Rightarrow> loadFromDatabase getExamById eid p
             | Some (ExamsJson allExams) \<Rightarrow>
                 (case findExam eid allExams of
                    Found cachedExam \<Rightarrow> finishLoad cachedExam p
                  | NotFound \<Rightarrow> loadFromDatabase getExamById eid p
                  | Threw \<Rightarrow> failLoad ''Failed to load exam. Please try again.'' p)
             | Some _ \<Rightarrow> failLoad ''Failed to load exam. Please try again.'' p))"

text \<open>
  The validation the accessor is specified to apply: the exam has a section, and one
  of its sections has a question.
\<close>

definition validExam :: "exam \<Rightarrow> bool" where
  "validExam e = (sections e \<noteq> [] \<and> list_ex (\<lambda>sec. questions sec \<noteq> []) (sections e))"

section \<open>Countdown Controller (the effect of lines 106 to 119)\<close>

text \<open>
  The state of the controller is the page together with the number of calls of
  \<^verbatim>\<open>handleSubmit\<close> that the timer has made so far. \<open>timerCallback\<close> is the function
  given to \<^verbatim>\<open>setInterval\<close>: the updater of \<^verbatim>\<open>setTimeLeft\<close>, with its call of
  \<^verbatim>\<open>handleSubmit\<close> counted.
\<close>

definition timerCallback :: "page \<times> nat \<Rightarrow> page \<times> nat" where
  "timerCallback s =
     (case s of (p, submits) \<Rightarrow>
        (let prev = timeLeft p in
         (p\<lparr> timeLeft := prev - 1 \<rparr>, if prev \<le> 1 then submits + 1 else submits)))"

text \<open>
  One second passes. The effect runs again after every change of \<^verbatim>\<open>timeLeft\<close>,
  clears the interval of the previous run and sets a new one only if
  \<^verbatim>\<open>timeLeft > 0\<close>: an interval is pending exactly when \<^verbatim>\<open>timeLeft > 0\<close>, and only
  then does the runtime call \<open>timerCallback\<close>.
\<close>

definition tick :: "page \<times> nat \<Rightarrow> page \<times> nat" where
  "tick s = (if timeLeft (fst s) > 0 then timerCallback s else s)"

section \<open>Answer Tracker (\<^verbatim>\<open>handleAnswer\<close>, lines 121 to 126)\<close>

definition handleAnswer :: "string \<Rightarrow> int \<Rightarrow> page \<Rightarrow> page" where
  "handleAnswer questionId optionIndex p =
     p\<lparr> answers_st := (answers_st p)(questionId \<mapsto> optionIndex) \<rparr>"

section \<open>Navigation (lines 286 to 289, 438 to 474 and 497 to 509)\<close>

text \<open>
  \<^verbatim>\<open>exam.sections[s]?.questions[q]\<close>: an index outside an array reads \<^verbatim>\<open>undefined\<close>.
\<close>

definition questionAt :: "exam \<Rightarrow> int \<Rightarrow> int \<Rightarrow> question option" where
  "questionAt e s q =
     (if 0 \<le> s \<and> nat s < length (sections e)
      then (let qs = questions (sections e ! nat s)
            in if 0 \<le> q \<and> nat q < length qs then Some (qs ! nat q) else None)
      else None)"

text \<open>
  The page renders the question view, with its buttons, only past the four early
  returns of lines 213, 249, 264 and 289.
\<close>

definition showsQuestion :: "page \<Rightarrow> bool" where
  "showsQuestion p =
     (error p = None \<and> \<not> isLoading p \<and>
      (case exam p of
         None \<Rightarrow> False
       | Some e \<Rightarrow> questionAt e (currentSection p) (currentQuestion p) \<noteq> None))"

text \<open>A click on Previous: nothing where the button is absent or disabled.\<close>

definition clickPrevious :: "page \<Rightarrow> page" where
  "clickPrevious p =
     (case exam p of
        None \<Rightarrow> p
      | Some e \<Rightarrow>
          if \<not> showsQuestion p then p
          else if currentSection p = 0 \<and> currentQuestion p = 0 then p
          else if currentQuestion p > 0
          then p\<lparr> currentQuestion := currentQuestion p - 1 \<rparr>
          else if currentSection p > 0
          then p\<lparr> currentSection := currentSection p - 1,
                  currentQuestion :=
                    int (length (questions (sections e ! nat (currentSection p - 1)))) - 1 \<rparr>
          else p)"

text \<open>A click on Next.\<close>

definition clickNext :: "page \<Rightarrow> page" where
  "clickNext p =
     (case exam p of
        None \<Rightarrow> p
      | Some e \<Rightarrow>
          if \<not> showsQuestion p then p
          else
            (let n = int (length (questions (sections e ! nat (currentSection p)))) in
             if currentSection p = int (length (sections e)) - 1 \<and> currentQuestion p = n - 1
             then p
             else if currentQuestion p < n - 1
             then p\<lparr> currentQuestion := currentQuestion p + 1 \<rparr>
             else if currentSection p < int (length (sections e)) - 1
             then p\<lparr> currentSection := currentSection p + 1, currentQuestion := 0 \<rparr>
             else p))"

text \<open>A click on the palette button of question \<open>qIndex\<close> of section \<open>sIndex\<close>.\<close>

definition clickPalette :: "nat \<Rightarrow> nat \<Rightarrow> page \<Rightarrow> page" where
  "clickPalette sIndex qIndex p =
     (case exam p of
        None \<Rightarrow> p
      | Some e \<Rightarrow>
          if showsQuestion p \<and> questionAt e (int sIndex) (int qIndex) \<noteq> None
          then p\<lparr> currentSection := int sIndex, currentQuestion := int qIndex \<rparr>
          else p)"

section \<open>Result Persister (\<^verbatim>\<open>handleSubmit\<close>, lines 128 to 211)\<close>

text \<open>
  What \<^verbatim>\<open>handleSubmit\<close> does to its surroundings, in the order of the calls: a write
  to \<^verbatim>\<open>localStorage\<close>, the call of the external \<^verbatim>\<open>ResultService.saveResult\<close>, the
  \<^verbatim>\<open>console.error\<close> of the \<^verbatim>\<open>catch\<close>, and \<^verbatim>\<open>navigate\<close>. The request of
  \<open>SaveResult\<close> is the test identifier, the user identifier and the results (the
  object sent has their score and, under \<^verbatim>\<open>answers\<close>, their other fields but the
  total).
\<close>

datatype effect =
    SetItem string stored
  | SaveResult string string results
  | LogError
  | Navigate string

text \<open>
  \<^verbatim>\<open>exams.findIndex((e: Exam) => e.id === examId)\<close>, with \<open>NotFound\<close> for \<open>-1\<close>; a
  match is returned with the exam found at it.
\<close>

fun findExamIndex :: "string \<Rightarrow> item list \<Rightarrow> (nat \<times> exam) found" where
  "findExamIndex examId [] = NotFound"
| "findExamIndex examId (ExamItem e # rest) =
     (if exam_id e = examId then Found (0, e)
      else (case findExamIndex examId rest of
              Found (i, e') \<Rightarrow> Found (Suc i, e')
            | NotFound \<Rightarrow> NotFound
            | Threw \<Rightarrow> Threw))"
| "findExamIndex examId (NullItem # rest) = Threw"
| "findExamIndex examId (PlainItem _ # rest) =
     (case findExamIndex examId rest of
        Found (i, e') \<Rightarrow> Found (Suc i, e')
      | NotFound \<Rightarrow> NotFound
      | Threw \<Rightarrow> Threw)"

text \<open>\<^verbatim>\<open>user?.email || 'anonymous'\<close>\<close>

definition userIdOf :: "string option \<Rightarrow> string" where
  "userIdOf email =
     (case email of None \<Rightarrow> ''anonymous'' | Some m \<Rightarrow> if m = [] then ''anonymous'' else m)"

text \<open>
  Lines 190 to 202, after the remote save has succeeded: the list under the key
  \<^verbatim>\<open>exams\<close> gets the time of the attempt. \<open>later\<close> is the clock at line 198. A text
  that is no list makes line 194 or 195 throw, and so does a \<^verbatim>\<open>null\<close> element met
  by the search.
\<close>

definition touchExams ::
    "string \<Rightarrow> int \<Rightarrow> page \<Rightarrow> localStorage \<Rightarrow> page \<times> localStorage \<times> effect list" where
  "touchExams examId later p storage =
     (case storage ''exams'' of
        None \<Rightarrow> (p\<lparr> isLoading := False \<rparr>, storage, [])
      | Some (ExamsJson exams) \<Rightarrow>
          (case findExamIndex examId exams of
             NotFound \<Rightarrow> (p\<lparr> isLoading := False \<rparr>, storage, [])
           | Found (examIndex, e) \<Rightarrow>
               (let exams' = exams[examIndex := ExamItem (e\<lparr> lastAttemptedAt := Some later \<rparr>)]
                in (p\<lparr> isLoading := False \<rparr>,
                    storage(''exams'' \<mapsto> ExamsJson exams'),
                    [SetItem ''exams'' (ExamsJson exams')]))
           | Threw \<Rightarrow> (p, storage, [LogError]))
      | Some _ \<Rightarrow> (p, storage, [LogError]))"

text \<open>
  \<^verbatim>\<open>handleSubmit\<close>. \<open>saveResult\<close> tells whether the promise of the external
  \<^verbatim>\<open>ResultService.saveResult\<close> is fulfilled for a request; \<open>now\<close> and \<open>later\<close> are the
  clock at lines 158 and 198. The result is the page, the storage and the effects in
  the order they happen.
\<close>

definition handleSubmit ::
    "string option \<Rightarrow> string option \<Rightarrow> (string \<Rightarrow> string \<Rightarrow> results \<Rightarrow> bool) \<Rightarrow> int \<Rightarrow> int \<Rightarrow>
     page \<Rightarrow> localStorage \<Rightarrow> page \<times> localStorage \<times> effect list" where
  "handleSubmit examId email saveResult now later p storage =
     (case exam p of
        None \<Rightarrow> (p, storage, [])
      | Some e \<Rightarrow>
          (case examId of
             None \<Rightarrow> (p, storage, [])
           | Some eid \<Rightarrow>
               if eid = [] then (p, storage, [])
               else
                 (let p1 = p\<lparr> isLoading := True \<rparr>;
                      r = computeResults e (answers_st p) (startTime p) now;
                      key = ''examResult_'' @ eid;
                      storage1 = storage(key \<mapsto> ResultsJson r);
                      userId = userIdOf email;
                      sent = [SetItem key (ResultsJson r), SaveResult eid userId r];
                      target = ''/exam/'' @ eid @ ''/result''
                  in if \<not> saveResult eid userId r
                     then (p1, storage1, sent @ [LogError, Navigate target])
                     else (case touchExams eid later p1 storage1 of
                             (p2, storage2, rest) \<Rightarrow>
                               (p2, storage2, sent @ rest @ [Navigate target])))))"

section \<open>The events of an attempt\<close>

text \<open>
  Everything that changes the state of the page once the exam is loaded: the choice
  of an option (\<^verbatim>\<open>onChange\<close> calls \<open>handleAnswer\<close>), the three ways to move the
  cursor, the passing of a second, and a call of \<open>handleSubmit\<close>, by the Submit
  button or by the timer.
\<close>

datatype event =
    Select string int
  | Previous
  | Next
  | Palette nat nat
  | Second
  | Submit "string option" "string option" "string \<Rightarrow> string \<Rightarrow> results \<Rightarrow> bool" int int

fun step :: "event \<Rightarrow> page \<times> localStorage \<Rightarrow> page \<times> localStorage" where
  "step (Select questionId optionIndex) (p, storage) = (handleAnswer questionId optionIndex p, storage)"
| "step Previous (p, storage) = (clickPrevious p, storage)"
| "step Next (p, storage) = (clickNext p, storage)"
| "step (Palette sIndex qIndex) (p, storage) = (clickPalette sIndex qIndex p, storage)"
| "step Second (p, storage) = (fst (tick (p, 0)), storage)"
| "step (Submit examId email saveResult now later) (p, storage) =
     (case handleSubmit examId email saveResult now later p storage of
        (p', storage', _) \<Rightarrow> (p', storage'))"

section \<open>Notions the properties are stated with\<close>

text \<open>The questions of an exam in the order the Scorer visits them.\<close>

definition allQuestions :: "exam \<Rightarrow> question list" where
  "allQuestions e = concat (map questions (sections e))"

text \<open>A question is answered when the answer map has an entry for its identifier.\<close>

definition isAnswered :: "answerMap \<Rightarrow> question \<Rightarrow> bool" where
  "isAnswered a q = (a (question_id q) \<noteq> None)"

text \<open>
  A question is counted when the read of line 139 does not return \<^verbatim>\<open>undefined\<close>.
\<close>

definition isCounted :: "answerMap \<Rightarrow> question \<Rightarrow> bool" where
  "isCounted a q = (readAnswer a (question_id q) \<noteq> Undefined)"

text \<open>The exam without its unanswered questions.\<close>

definition answeredOnly :: "answerMap \<Rightarrow> exam \<Rightarrow> exam" where
  "answeredOnly a e =
     e\<lparr> sections :=
          map (\<lambda>sec. sec\<lparr> questions := filter (isAnswered a) (questions sec) \<rparr>) (sections e) \<rparr>"

text \<open>The tally \<open>t\<close> with each of its three components raised by that of \<open>d\<close>.\<close>

definition shiftTally :: "tally \<Rightarrow> tally \<Rightarrow> tally" where
  "shiftTally d t = (fst t + fst d, fst (snd t) + fst (snd d), snd (snd t) + snd (snd d))"

section \<open>Sample data\<close>

text \<open>
  The example of section 8 of the specification: one section with penalty 1 and two
  questions of weightage 2 whose correct option is 0, the first answered with 0 and
  the second with 1. A second section makes it an exam to navigate in.
\<close>

definition q1 :: question where
  "q1 = \<lparr> question_id = ''q1'', question_text = ''first'', options = [''a'', ''b''],
          correctAnswer = 0, weightage = 2 \<rparr>"

definition q2 :: question where
  "q2 = \<lparr> question_id = ''q2'', question_text = ''second'', options = [''a'', ''b''],
          correctAnswer = 0, weightage = 2 \<rparr>"

definition q3 :: question where
  "q3 = \<lparr> question_id = ''q3'', question_text = ''third'', options = [''a'', ''b'', ''c''],
          correctAnswer = 2, weightage = 4 \<rparr>"

definition sectionA :: exam_section where
  "sectionA = \<lparr> section_name = ''A'', instructions = None, negativeMarking = 1,
                questions = [q1, q2] \<rparr>"

definition sectionB :: exam_section where
  "sectionB = \<lparr> section_name = ''B'', instructions = Some ''read'', negativeMarking = 1 / 2,
                questions = [q3] \<rparr>"

definition exampleExam :: exam where
  "exampleExam =
     \<lparr> exam_id = ''e1'', title = ''example'', duration = 1, sections = [sectionA],
       markingScheme = \<lparr> defaultWeightage = 2, passingPercentage = 40 \<rparr>,
       lastAttemptedAt = None \<rparr>"

definition twoSectionExam :: exam where
  "twoSectionExam = exampleExam\<lparr> exam_id := ''e2'', sections := [sectionA, sectionB] \<rparr>"

definition exampleAnswers :: answerMap where
  "exampleAnswers = [''q1'' \<mapsto> 0, ''q2'' \<mapsto> 1]"

text \<open>An exam without sections, as a cache may hold it.\<close>

definition emptyExam :: exam where
  "emptyExam = exampleExam\<lparr> exam_id := ''e0'', sections := [] \<rparr>"

definition cacheWithEmptyExam :: localStorage where
  "cacheWithEmptyExam = [''stream_exams_engineering'' \<mapsto> ExamsJson [ExamItem emptyExam]]"

text \<open>
  An exam with one question, whose identifier is the name of a member that every
  plain object inherits.
\<close>

definition inheritedNameQuestion :: question where
  "inheritedNameQuestion =
     \<lparr> question_id = ''constructor'', question_text = ''only'', options = [''a'', ''b''],
       correctAnswer = 0, weightage = 2 \<rparr>"

definition inheritedNameExam :: exam where
  "inheritedNameExam =
     exampleExam\<lparr> exam_id := ''e4'',
       sections := [sectionA\<lparr> questions := [inheritedNameQuestion] \<rparr>] \<rparr>"

text \<open>An exam with a section without questions between two sections that have some.\<close>

definition emptySection :: exam_section where
  "emptySection = \<lparr> section_name = ''none'', instructions = None, negativeMarking = 0,
                    questions = [] \<rparr>"

definition gapExam :: exam where
  "gapExam = exampleExam\<lparr> exam_id := ''e3'', sections := [sectionA, emptySection, sectionB] \<rparr>"

text \<open>A result service whose every save is rejected.\<close>

definition alwaysFails :: "string \<Rightarrow> string \<Rightarrow> results \<Rightarrow> bool" where
  "alwaysFails testId userId r = False"

text \<open>The page showing question \<open>cq\<close> of section \<open>cs\<close> of an exam.\<close>

definition pageAt :: "exam \<Rightarrow> int \<Rightarrow> int \<Rightarrow> page" where
  "pageAt e cs cq =
     (initialPage 0)\<lparr> exam := Some e, currentSection := cs, currentQuestion := cq,
                      timeLeft := duration e * 60, isLoading := False \<rparr>"

section \<open>Facts about the Scorer\<close>

lemmas example_defs = exampleExam_def twoSectionExam_def emptyExam_def sectionA_def sectionB_def
  q1_def q2_def q3_def exampleAnswers_def inheritedNameExam_def inheritedNameQuestion_def
  gapExam_def emptySection_def

lemmas scorer_defs = computeResults_def scoreSections_def scoreSection_def scoreQuestion_def
  readAnswer_def objectPrototypeKeys_def percentageDivisor_def countQuestions_def jsDivide_def

lemma computeResults_fields:
  "totalQuestions (computeResults e a st now) = countQuestions e"
  "correctAnswers (computeResults e a st now) = fst (scoreSections a (sections e) (0, 0, 0))"
  "wrongAnswers (computeResults e a st now) = fst (snd (scoreSections a (sections e) (0, 0, 0)))"
  "score (computeResults e a st now) = snd (snd (scoreSections a (sections e) (0, 0, 0)))"
  "percentage (computeResults e a st now) =
     jsTimes (jsDivide (snd (snd (scoreSections a (sections e) (0, 0, 0)))) (percentageDivisor e)) 100"
  "timeTaken (computeResults e a st now) = (now - st) div 1000"
  "isPassed (computeResults e a st now) =
     jsGe (jsTimes (jsDivide (snd (snd (scoreSections a (sections e) (0, 0, 0)))) (percentageDivisor e)) 100)
       (passingPercentage (markingScheme e))"
  "answers (computeResults e a st now) = a"
  by (simp_all add: computeResults_def Let_def split: prod.splits)

text \<open>The penalty comes from the section; its list of questions plays no part in a step.\<close>

lemma scoreQuestion_questions_irrelevant:
  "scoreQuestion a (sec\<lparr> questions := qs \<rparr>) = scoreQuestion a sec"
  by (rule ext)+ (auto simp: scoreQuestion_def Let_def split: prod.splits)

text \<open>
  A step adds to the tally an amount that does not depend on the tally, so that it
  commutes with all the steps that follow it.
\<close>

lemma scoreQuestion_shift:
  "scoreQuestion a sec q (shiftTally d t) = shiftTally d (scoreQuestion a sec q t)"
  by (cases t) (simp add: scoreQuestion_def shiftTally_def Let_def)

lemma scoreSection_shift:
  "fold (scoreQuestion a sec) qs (shiftTally d t) = shiftTally d (fold (scoreQuestion a sec) qs t)"
  by (induction qs arbitrary: t) (simp_all add: scoreQuestion_shift)

lemma scoreSections_shift:
  "scoreSections a secs (shiftTally d t) = shiftTally d (scoreSections a secs t)"
  unfolding scoreSections_def
  by (induction secs arbitrary: t) (simp_all add: scoreSection_def scoreSection_shift)

lemma scoreQuestion_delta:
  "scoreQuestion a sec q t = shiftTally (scoreQuestion a sec q (0, 0, 0)) t"
  by (cases t) (simp add: scoreQuestion_def shiftTally_def Let_def)

lemma scoreSections_insert:
  "scoreSections a (lsecs @ [sec\<lparr> questions := lqs @ [q] @ rqs \<rparr>] @ rsecs) t =
   shiftTally (scoreQuestion a sec q (0, 0, 0))
     (scoreSections a (lsecs @ [sec\<lparr> questions := lqs @ rqs \<rparr>] @ rsecs) t)"
proof -
  let ?before = "fold (scoreQuestion a sec) lqs (scoreSections a lsecs t)"
  have "scoreSections a (lsecs @ [sec\<lparr> questions := lqs @ [q] @ rqs \<rparr>] @ rsecs) t
      = scoreSections a rsecs (fold (scoreQuestion a sec) rqs (scoreQuestion a sec q ?before))"
    by (simp add: scoreSections_def scoreSection_def scoreQuestion_questions_irrelevant)
  also have "scoreQuestion a sec q ?before = shiftTally (scoreQuestion a sec q (0, 0, 0)) ?before"
    by (rule scoreQuestion_delta)
  also have "scoreSections a rsecs (fold (scoreQuestion a sec) rqs
        (shiftTally (scoreQuestion a sec q (0, 0, 0)) ?before))
      = shiftTally (scoreQuestion a sec q (0, 0, 0))
          (scoreSections a rsecs (fold (scoreQuestion a sec) rqs ?before))"
    by (simp add: scoreSection_shift scoreSections_shift)
  also have "scoreSections a rsecs (fold (scoreQuestion a sec) rqs ?before)
      = scoreSections a (lsecs @ [sec\<lparr> questions := lqs @ rqs \<rparr>] @ rsecs) t"
    by (simp add: scoreSections_def scoreSection_def scoreQuestion_questions_irrelevant)
  finally show ?thesis .
qed

text \<open>
  Claim C1. Take any exam and any question \<open>q\<close> of it that is answered, with the
  option \<open>u\<close>. Compared with the exam without \<open>q\<close>, the Scorer returns: if \<open>u\<close> is the
  correct option of \<open>q\<close>, a correct count one higher and a score higher by the
  weightage of \<open>q\<close>; otherwise a wrong count one higher and a score lower by the penalty
  of the section of \<open>q\<close>, whatever the weightage of \<open>q\<close>. The other count is the same.
\<close>

theorem scorer_handles_answered_question:
  assumes "a (question_id q) = Some u"
  shows "(let r  = computeResults (e\<lparr> sections := lsecs @ [sec\<lparr> questions := lqs @ rqs \<rparr>] @ rsecs \<rparr>) a st now;
              r' = computeResults (e\<lparr> sections := lsecs @ [sec\<lparr> questions := lqs @ [q] @ rqs \<rparr>] @ rsecs \<rparr>) a st now
          in if u = correctAnswer q
             then correctAnswers r' = correctAnswers r + 1 \<and> wrongAnswers r' = wrongAnswers r
                  \<and> score r' = score r + weightage q
             else wrongAnswers r' = wrongAnswers r + 1 \<and> correctAnswers r' = correctAnswers r
                  \<and> score r' = score r - negativeMarking sec)"
proof -
  have d: "scoreQuestion a sec q (0, 0, 0) =
      (if u = correctAnswer q then (1, 0, weightage q) else (0, 1, - negativeMarking sec))"
    using assms by (simp add: scoreQuestion_def readAnswer_def)
  show ?thesis
    using scoreSections_insert[where a = a and lsecs = lsecs and sec = sec and lqs = lqs and q = q and rqs = rqs and rsecs = rsecs and t = "(0, 0, 0)"]
    by (simp add: computeResults_fields Let_def d shiftTally_def del: append.simps append_Cons append_Nil)
qed

text \<open>
  The example of the specification, question by question: the first answer is
  correct and earns the weightage 2, the second is wrong and costs the penalty 1.
\<close>

theorem scorer_handles_answered_question_witness:
  "exampleAnswers (question_id q1) = Some 0 \<and> exampleAnswers (question_id q2) = Some 1
   \<and> correctAnswers (computeResults exampleExam exampleAnswers 0 5000) = 0 + 1
   \<and> wrongAnswers (computeResults exampleExam exampleAnswers 0 5000) = 0 + 1
   \<and> score (computeResults exampleExam exampleAnswers 0 5000) = 0 + 2 - 1"
proof -
  have h: "exampleAnswers (question_id q1) = Some 0" "exampleAnswers (question_id q2) = Some 1"
    by (simp_all add: example_defs)
  have none: "correctAnswers (computeResults (exampleExam\<lparr> sections := [sectionA\<lparr> questions := [] \<rparr>] \<rparr>) exampleAnswers 0 5000) = 0"
    "wrongAnswers (computeResults (exampleExam\<lparr> sections := [sectionA\<lparr> questions := [] \<rparr>] \<rparr>) exampleAnswers 0 5000) = 0"
    "score (computeResults (exampleExam\<lparr> sections := [sectionA\<lparr> questions := [] \<rparr>] \<rparr>) exampleAnswers 0 5000) = 0"
    by (simp_all add: scorer_defs)
  have whole: "exampleExam\<lparr> sections := [sectionA\<lparr> questions := [q1, q2] \<rparr>] \<rparr> = exampleExam"
    by (simp add: example_defs)
  have c: "correctAnswer q1 = 0" "weightage q1 = 2" "correctAnswer q2 = 0" "negativeMarking sectionA = 1"
    by (simp_all add: example_defs)
  have first: "correctAnswers (computeResults (exampleExam\<lparr> sections := [sectionA\<lparr> questions := [q1] \<rparr>] \<rparr>) exampleAnswers 0 5000) = 1
    \<and> wrongAnswers (computeResults (exampleExam\<lparr> sections := [sectionA\<lparr> questions := [q1] \<rparr>] \<rparr>) exampleAnswers 0 5000) = 0
    \<and> score (computeResults (exampleExam\<lparr> sections := [sectionA\<lparr> questions := [q1] \<rparr>] \<rparr>) exampleAnswers 0 5000) = 2"
    using scorer_handles_answered_question [where a = exampleAnswers and q = q1 and u = 0 and e = exampleExam
        and lsecs = "[]" and sec = sectionA and lqs = "[]" and rqs = "[]" and rsecs = "[]"
        and st = 0 and now = 5000] h none c
    by (simp add: Let_def)
  show ?thesis
    using scorer_handles_answered_question [where a = exampleAnswers and q = q2 and u = 1 and e = exampleExam
        and lsecs = "[]" and sec = sectionA and lqs = "[q1]" and rqs = "[]" and rsecs = "[]"
        and st = 0 and now = 5000] h first c
    by (simp add: Let_def whole)
qed

subsection \<open>Questions without an answer\<close>

lemma countQuestions_fold:
  "fold (\<lambda>sec sum. sum + length (questions sec)) secs n = n + length (concat (map questions secs))"
  by (induction secs arbitrary: n) simp_all

lemma countQuestions_allQuestions: "countQuestions e = length (allQuestions e)"
  by (simp add: countQuestions_def allQuestions_def countQuestions_fold)

text \<open>
  Claim C2, on the code: the one question of the exam has the identifier
  \<^verbatim>\<open>constructor\<close> and the answer map is empty, so that no question is answered and
  the keys of the map are a subset of the identifiers. The read of line 139 returns
  the inherited \<^verbatim>\<open>Object\<close> function, the test of line 140 does not leave, and the
  question is counted as wrong and costs the penalty 1 of its section: the wrong
  count is 1 where there are 0 keys, and the score is -1.
\<close>

theorem unanswered_inherited_name_counted_wrong:
  "distinct (map question_id (allQuestions inheritedNameExam))
   \<and> dom (Map.empty :: answerMap) \<subseteq> question_id ` set (allQuestions inheritedNameExam)
   \<and> isAnswered Map.empty inheritedNameQuestion = False
   \<and> card (dom (Map.empty :: answerMap)) = 0
   \<and> correctAnswers (computeResults inheritedNameExam Map.empty 0 5000) = 0
   \<and> wrongAnswers (computeResults inheritedNameExam Map.empty 0 5000) = 1
   \<and> score (computeResults inheritedNameExam Map.empty 0 5000) = - 1"
  by (simp add: scorer_defs example_defs allQuestions_def isAnswered_def)

text \<open>
  What holds of the code in general: the correct and the wrong count add up to the
  number of questions for which the read is not \<^verbatim>\<open>undefined\<close>, and the other
  questions leave the tally as it is.
\<close>

lemma scoreQuestion_counts:
  "fst (scoreQuestion a sec q t) + fst (snd (scoreQuestion a sec q t)) =
   fst t + fst (snd t) + (if isCounted a q then 1 else 0)"
  by (auto simp: scoreQuestion_def isCounted_def Let_def split: prod.splits)

lemma scoreSection_counts:
  "fst (fold (scoreQuestion a sec) qs t) + fst (snd (fold (scoreQuestion a sec) qs t)) =
   fst t + fst (snd t) + length (filter (isCounted a) qs)"
  by (induction qs arbitrary: t) (simp_all add: scoreQuestion_counts)

lemma scoreSections_counts:
  "fst (scoreSections a secs t) + fst (snd (scoreSections a secs t)) =
   fst t + fst (snd t) + length (filter (isCounted a) (concat (map questions secs)))"
  unfolding scoreSections_def
  by (induction secs arbitrary: t) (simp_all add: scoreSection_def scoreSection_counts)

lemma scoreQuestion_not_counted: "\<not> isCounted a q \<Longrightarrow> scoreQuestion a sec q t = t"
  by (simp add: scoreQuestion_def isCounted_def split: prod.splits)

text \<open>Where no identifier is an inherited name, counted and answered are the same.\<close>

lemma isCounted_plain_id:
  "question_id q \<notin> set objectPrototypeKeys \<Longrightarrow> isCounted a q = isAnswered a q"
  by (simp add: isCounted_def isAnswered_def readAnswer_def split: option.splits)

lemma fold_scoreQuestion_filter:
  "\<forall>q \<in> set qs. question_id q \<notin> set objectPrototypeKeys \<Longrightarrow>
   fold (scoreQuestion a sec) (filter (isAnswered a) qs) t = fold (scoreQuestion a sec) qs t"
  by (induction qs arbitrary: t) (auto simp: scoreQuestion_not_counted isCounted_plain_id)

lemma scoreSections_answeredOnly:
  "\<forall>q \<in> set (concat (map questions secs)). question_id q \<notin> set objectPrototypeKeys \<Longrightarrow>
   scoreSections a (map (\<lambda>sec. sec\<lparr> questions := filter (isAnswered a) (questions sec) \<rparr>) secs) t
   = scoreSections a secs t"
  unfolding scoreSections_def
  by (induction secs arbitrary: t)
     (simp_all add: scoreSection_def scoreQuestion_questions_irrelevant fold_scoreQuestion_filter)

lemma answered_card:
  assumes "distinct (map question_id qs)" "dom a \<subseteq> question_id ` set qs"
  shows "length (filter (isAnswered a) qs) = card (dom a)"
proof -
  have d: "distinct (map question_id (filter (isAnswered a) qs))"
    using assms(1) by (simp add: distinct_map_filter)
  have "set (map question_id (filter (isAnswered a) qs)) = dom a"
    using assms(2) by (auto simp: isAnswered_def dom_def)
  then have "card (dom a) = length (map question_id (filter (isAnswered a) qs))"
    using distinct_card[OF d] by simp
  then show ?thesis by simp
qed

lemma unanswered_count:
  "length (filter (\<lambda>q. \<not> isAnswered a q) qs) = length qs - length (filter (isAnswered a) qs)"
  using sum_length_filter_compl[of "isAnswered a" qs] by simp

lemma countQuestions_answeredOnly:
  "countQuestions (answeredOnly a e) = length (filter (isAnswered a) (allQuestions e))"
  by (simp add: countQuestions_allQuestions allQuestions_def answeredOnly_def filter_concat comp_def)

text \<open>
  For exams none of whose question identifiers is an inherited name, the code does
  skip the unanswered questions: with pairwise different identifiers and every key
  of the answer map among them, the two counts add up to the number of keys, the
  questions without an entry are the total less the number of keys, and the exam
  without them has the same counts and score.
\<close>

lemma unanswered_skipped_for_plain_ids:
  assumes "distinct (map question_id (allQuestions e))"
      and "dom a \<subseteq> question_id ` set (allQuestions e)"
      and plain: "\<forall>q \<in> set (allQuestions e). question_id q \<notin> set objectPrototypeKeys"
  shows "correctAnswers (computeResults e a st now) + wrongAnswers (computeResults e a st now)
           = card (dom a)
       \<and> length (filter (\<lambda>q. \<not> isAnswered a q) (allQuestions e))
           = totalQuestions (computeResults e a st now) - card (dom a)
       \<and> card (dom a) \<le> totalQuestions (computeResults e a st now)
       \<and> correctAnswers (computeResults (answeredOnly a e) a st now)
           = correctAnswers (computeResults e a st now)
       \<and> wrongAnswers (computeResults (answeredOnly a e) a st now)
           = wrongAnswers (computeResults e a st now)
       \<and> score (computeResults (answeredOnly a e) a st now) = score (computeResults e a st now)
       \<and> totalQuestions (computeResults (answeredOnly a e) a st now) = card (dom a)"
proof -
  have card: "length (filter (isAnswered a) (allQuestions e)) = card (dom a)"
    using assms(1,2) by (rule answered_card)
  have "filter (isCounted a) (allQuestions e) = filter (isAnswered a) (allQuestions e)"
    using plain by (intro filter_cong) (simp_all add: isCounted_plain_id)
  then have counts: "correctAnswers (computeResults e a st now)
      + wrongAnswers (computeResults e a st now) = card (dom a)"
    using scoreSections_counts[of a "sections e" "(0, 0, 0)"] card
    by (simp add: computeResults_fields allQuestions_def)
  have le: "card (dom a) \<le> totalQuestions (computeResults e a st now)"
    using card length_filter_le[of "isAnswered a" "allQuestions e"]
    by (simp add: computeResults_fields countQuestions_allQuestions)
  have un: "length (filter (\<lambda>q. \<not> isAnswered a q) (allQuestions e))
           = totalQuestions (computeResults e a st now) - card (dom a)"
    using card by (simp add: unanswered_count computeResults_fields countQuestions_allQuestions)
  have same: "scoreSections a (sections (answeredOnly a e)) (0, 0, 0)
      = scoreSections a (sections e) (0, 0, 0)"
    using plain by (simp add: answeredOnly_def scoreSections_answeredOnly allQuestions_def)
  have tot: "totalQuestions (computeResults (answeredOnly a e) a st now) = card (dom a)"
    using card by (simp add: computeResults_fields countQuestions_answeredOnly)
  show ?thesis
    using counts le un tot by (simp add: computeResults_fields same)
qed

subsection \<open>Percentage and pass flag\<close>

text \<open>
  Claim C3. The percentage of the Result is \<open>(score / (totalQuestions * dw)) * 100\<close>
  in the arithmetic of JavaScript numbers, where \<open>dw\<close> is the default weightage of the
  marking scheme and \<open>totalQuestions\<close> the number of all questions: no weightage of a
  question occurs in the divisor. The pass flag is the comparison \<open>percentage >= pp\<close>
  with the passing percentage \<open>pp\<close>. Where the divisor is not zero, the percentage
  is that finite number and the flag is the comparison of rationals.
\<close>

theorem percentage_and_pass_flag:
  assumes "r = computeResults e a st now"
      and "dw = defaultWeightage (markingScheme e)"
      and "pp = passingPercentage (markingScheme e)"
  shows "totalQuestions r = length (allQuestions e)
       \<and> percentage r = jsTimes (jsDivide (score r) (of_nat (totalQuestions r) * dw)) 100
       \<and> isPassed r = jsGe (percentage r) pp
       \<and> (of_nat (totalQuestions r) * dw \<noteq> 0 \<longrightarrow>
            percentage r = Finite (score r / (of_nat (totalQuestions r) * dw) * 100)
            \<and> isPassed r = (pp \<le> score r / (of_nat (totalQuestions r) * dw) * 100))"
  using assms
  by (simp add: computeResults_fields percentageDivisor_def countQuestions_allQuestions jsDivide_def)

text \<open>The example of the specification: \<open>(1 / (2 * 2)) * 100 = 25\<close>, below the 40 to pass.\<close>

theorem percentage_and_pass_flag_witness:
  "totalQuestions (computeResults exampleExam exampleAnswers 0 5000) = 2
   \<and> score (computeResults exampleExam exampleAnswers 0 5000) = 1
   \<and> percentage (computeResults exampleExam exampleAnswers 0 5000) = Finite 25
   \<and> isPassed (computeResults exampleExam exampleAnswers 0 5000) = False"
proof -
  have t: "totalQuestions (computeResults exampleExam exampleAnswers 0 5000) = 2"
    by (simp add: scorer_defs example_defs)
  have s: "score (computeResults exampleExam exampleAnswers 0 5000) = 1"
    by (simp add: scorer_defs example_defs)
  have m: "defaultWeightage (markingScheme exampleExam) = 2"
    "passingPercentage (markingScheme exampleExam) = 40"
    by (simp_all add: example_defs)
  show ?thesis
    using percentage_and_pass_flag [OF refl refl refl, of exampleExam exampleAnswers 0 5000] t s m
    by (simp add: jsDivide_def)
qed

subsection \<open>Two calls of the Scorer\<close>

text \<open>
  Claim C8, as stated: two calls with the same exam and the same answer map return
  the same Result in every field, the elapsed time among them. It fails: the elapsed
  time is read off the clock, and the same exam and answers scored one second and
  two seconds after the start give two different Results.
\<close>

theorem results_differ_in_elapsed_time:
  "computeResults exampleExam exampleAnswers 0 1000 \<noteq> computeResults exampleExam exampleAnswers 0 2000"
proof
  assume "computeResults exampleExam exampleAnswers 0 1000
        = computeResults exampleExam exampleAnswers 0 2000"
  then have "timeTaken (computeResults exampleExam exampleAnswers 0 1000)
           = timeTaken (computeResults exampleExam exampleAnswers 0 2000)"
    by simp
  then show False by (simp add: computeResults_fields)
qed

text \<open>
  Claim C8, amended. Two calls with the same exam and the same answer map, at any
  start times and clock readings, return Results that agree in every field other
  than the elapsed time: total questions, correct count, wrong count, score,
  percentage, pass flag and answer map. The elapsed time is the whole number of
  seconds between the start of the attempt and the call.
\<close>

theorem results_agree_but_for_elapsed_time:
  "(computeResults e a st1 now1)\<lparr> timeTaken := t \<rparr> = (computeResults e a st2 now2)\<lparr> timeTaken := t \<rparr>
   \<and> timeTaken (computeResults e a st now) = (now - st) div 1000"
  by (simp add: computeResults_def Let_def split: prod.splits)

section \<open>Facts about the Exam Data Accessor\<close>

lemma hasQuestions_list_ex: "hasQuestions secs = list_ex (\<lambda>sec. questions sec \<noteq> []) secs"
  by (induction secs) simp_all

text \<open>What the database returns is validated before the page takes it.\<close>

lemma loadFromDatabase_validates:
  "exam p = None \<Longrightarrow> exam (loadFromDatabase getExamById eid p) = Some e \<Longrightarrow>
     getExamById eid = GotExam e \<and> validExam e"
  by (auto simp: loadFromDatabase_def failLoad_def finishLoad_def validExam_def hasQuestions_list_ex
      split: reply.splits if_splits)

lemma loadExam_cache_hit:
  assumes "eid \<noteq> []"
      and "storage ''stream_exams_engineering'' = Some (ExamsJson allExams)"
      and "findExam eid allExams = Found e"
  shows "loadExam (Some eid) storage getExamById p = finishLoad e p"
  using assms by (simp add: loadExam_def)

text \<open>
  Claim C4, on the code: the first cache holds an exam without sections under the
  identifier asked for. \<open>loadExam\<close> hands it to the page, sets the countdown and
  reports no error, although the exam does not pass the validation.
\<close>

theorem cached_exam_is_not_validated:
  "loadExam (Some ''e0'') cacheWithEmptyExam (\<lambda>_. NoExam) (initialPage 0)
     = (initialPage 0)\<lparr> exam := Some emptyExam, timeLeft := 60, isLoading := False \<rparr>
   \<and> error (loadExam (Some ''e0'') cacheWithEmptyExam (\<lambda>_. NoExam) (initialPage 0)) = None
   \<and> validExam emptyExam = False"
  by (simp add: loadExam_def cacheWithEmptyExam_def finishLoad_def validExam_def example_defs
      initialPage_def)

subsection \<open>The divisor of the percentage\<close>

lemma jsTimes_not_finite: "\<not> isFinite x \<Longrightarrow> \<not> isFinite (jsTimes x c)"
  by (cases x) simp_all

text \<open>
  Claim C10. Nothing guards the division: for an exam without questions, or with a
  default weightage of zero, the divisor is zero and the percentage is not a finite
  number. Such an exam can reach the page: an exam found in the first cache under
  the identifier asked for is taken as it is, whatever its sections, and no error is
  set.
\<close>

theorem zero_divisor_percentage_not_finite:
  "(countQuestions e = 0 \<or> defaultWeightage (markingScheme e) = 0 \<longrightarrow>
      percentageDivisor e = 0 \<and> \<not> isFinite (percentage (computeResults e a st now)))
   \<and> (eid \<noteq> [] \<and> storage ''stream_exams_engineering'' = Some (ExamsJson allExams)
        \<and> findExam eid allExams = Found e \<longrightarrow>
      exam (loadExam (Some eid) storage getExamById p) = Some e
      \<and> error (loadExam (Some eid) storage getExamById p) = error p)"
proof -
  have "\<not> isFinite (percentage (computeResults e a st now))" if "percentageDivisor e = 0"
    using that by (simp add: computeResults_fields jsDivide_def jsTimes_not_finite)
  moreover have "percentageDivisor e = 0"
    if "countQuestions e = 0 \<or> defaultWeightage (markingScheme e) = 0"
    using that by (auto simp: percentageDivisor_def)
  ultimately show ?thesis
    by (auto simp: loadExam_cache_hit finishLoad_def)
qed

text \<open>The cached exam without sections: no question, divisor zero, percentage \<^verbatim>\<open>NaN\<close>.\<close>

theorem zero_divisor_percentage_not_finite_witness:
  "countQuestions emptyExam = 0
   \<and> percentageDivisor emptyExam = 0
   \<and> percentage (computeResults emptyExam Map.empty 0 60000) = NaN
   \<and> exam (loadExam (Some ''e0'') cacheWithEmptyExam (\<lambda>_. NoExam) (initialPage 0)) = Some emptyExam
   \<and> error (loadExam (Some ''e0'') cacheWithEmptyExam (\<lambda>_. NoExam) (initialPage 0)) = None"
proof -
  have z: "countQuestions emptyExam = 0"
    by (simp add: countQuestions_def example_defs)
  have n: "percentage (computeResults emptyExam Map.empty 0 60000) = NaN"
    by (simp add: scorer_defs example_defs)
  have h: "''e0'' \<noteq> []
        \<and> cacheWithEmptyExam ''stream_exams_engineering'' = Some (ExamsJson [ExamItem emptyExam])
        \<and> findExam ''e0'' [ExamItem emptyExam] = Found emptyExam"
    by (simp add: cacheWithEmptyExam_def example_defs)
  have e: "error (initialPage 0) = None"
    by (simp add: initialPage_def)
  show ?thesis
    using zero_divisor_percentage_not_finite [of emptyExam Map.empty 0 60000 "''e0''"
        cacheWithEmptyExam "[ExamItem emptyExam]" "\<lambda>_. NoExam" "initialPage 0"]
      z n h e by simp
qed

section \<open>Facts about the Countdown Controller\<close>

text \<open>The state after \<open>k\<close> seconds.\<close>

lemma tick_funpow:
  "0 \<le> timeLeft p \<Longrightarrow>
   (tick ^^ k) (p, n) =
     (p\<lparr> timeLeft := max 0 (timeLeft p - int k) \<rparr>,
      if 0 < timeLeft p \<and> timeLeft p \<le> int k then n + 1 else n)"
proof (induction k arbitrary: p n)
  case 0
  then show ?case by simp
next
  case (Suc k)
  show ?case
  proof (cases "0 < timeLeft p")
    case True
    let ?p = "p\<lparr> timeLeft := timeLeft p - 1 \<rparr>"
    let ?n = "if timeLeft p \<le> 1 then n + 1 else n"
    have t: "tick (p, n) = (?p, ?n)"
      using True by (simp add: tick_def timerCallback_def Let_def)
    have "(tick ^^ Suc k) (p, n) = (tick ^^ k) (?p, ?n)"
      by (simp add: funpow_swap1 t)
    also have "\<dots> = (?p\<lparr> timeLeft := max 0 (timeLeft ?p - int k) \<rparr>,
        if 0 < timeLeft ?p \<and> timeLeft ?p \<le> int k then ?n + 1 else ?n)"
      using True by (intro Suc.IH) simp
    also have "\<dots> = (p\<lparr> timeLeft := max 0 (timeLeft p - int (Suc k)) \<rparr>,
        if 0 < timeLeft p \<and> timeLeft p \<le> int (Suc k) then n + 1 else n)"
      using True by (auto simp: algebra_simps)
    finally show ?thesis .
  next
    case False
    with Suc.prems have z: "timeLeft p = 0" by simp
    have t: "tick (p, n) = (p, n)"
      using z by (simp add: tick_def)
    have "(tick ^^ Suc k) (p, n) = (tick ^^ k) (p, n)"
      by (simp add: funpow_swap1 t)
    also have "\<dots> = (p\<lparr> timeLeft := max 0 (timeLeft p - int k) \<rparr>,
        if 0 < timeLeft p \<and> timeLeft p \<le> int k then n + 1 else n)"
      using Suc.prems by (rule Suc.IH)
    finally show ?thesis using z by simp
  qed
qed

lemma loadExam_result:
  "exam p = None \<Longrightarrow> exam (loadExam i s g p) = Some e \<Longrightarrow> loadExam i s g p = finishLoad e p"
  by (auto simp: loadExam_def loadFromDatabase_def failLoad_def finishLoad_def
      split: option.splits stored.splits found.splits reply.splits if_splits)

text \<open>
  Claim C5. Once an exam of positive duration is loaded, the remaining seconds are
  \<open>duration * 60\<close>. Every second lowers them by 1 until they are 0; the second that
  brings them to 0 calls the finalization and leaves no interval pending, so that
  every later second changes nothing. After \<open>k\<close> seconds, however many, the
  remaining seconds are \<open>duration * 60 - k\<close> or 0, and the finalization has been
  called exactly once if \<open>duration * 60 \<le> k\<close> and not at all before.
\<close>

theorem countdown_finalizes_once:
  assumes "exam p0 = None"
      and "exam (loadExam i s g p0) = Some e"
      and "0 < duration e"
  shows "timeLeft (loadExam i s g p0) = duration e * 60
       \<and> timeLeft (fst ((tick ^^ k) (loadExam i s g p0, 0))) = max 0 (duration e * 60 - int k)
       \<and> snd ((tick ^^ k) (loadExam i s g p0, 0)) = (if duration e * 60 \<le> int k then 1 else 0)
       \<and> (duration e * 60 \<le> int k \<longrightarrow>
            tick ((tick ^^ k) (loadExam i s g p0, 0)) = (tick ^^ k) (loadExam i s g p0, 0))"
proof -
  have l: "loadExam i s g p0 = finishLoad e p0"
    using assms(1,2) by (rule loadExam_result)
  have t: "timeLeft (finishLoad e p0) = duration e * 60"
    by (simp add: finishLoad_def)
  have "0 \<le> timeLeft (finishLoad e p0)"
    using assms(3) t by simp
  from tick_funpow[OF this, of k 0] show ?thesis
    using assms(3) by (simp add: l t tick_def)
qed

text \<open>One minute: 1 second left after 59, finalization at 60, still one call at 100.\<close>

theorem countdown_finalizes_once_witness:
  "exam (initialPage 0) = None
   \<and> exam (loadExam (Some ''e1'') Map.empty (\<lambda>_. GotExam exampleExam) (initialPage 0)) = Some exampleExam
   \<and> 0 < duration exampleExam
   \<and> timeLeft (loadExam (Some ''e1'') Map.empty (\<lambda>_. GotExam exampleExam) (initialPage 0)) = 60
   \<and> timeLeft (fst ((tick ^^ 59) (loadExam (Some ''e1'') Map.empty (\<lambda>_. GotExam exampleExam) (initialPage 0), 0))) = 1
   \<and> snd ((tick ^^ 59) (loadExam (Some ''e1'') Map.empty (\<lambda>_. GotExam exampleExam) (initialPage 0), 0)) = 0
   \<and> timeLeft (fst ((tick ^^ 60) (loadExam (Some ''e1'') Map.empty (\<lambda>_. GotExam exampleExam) (initialPage 0), 0))) = 0
   \<and> snd ((tick ^^ 60) (loadExam (Some ''e1'') Map.empty (\<lambda>_. GotExam exampleExam) (initialPage 0), 0)) = 1
   \<and> snd ((tick ^^ 100) (loadExam (Some ''e1'') Map.empty (\<lambda>_. GotExam exampleExam) (initialPage 0), 0)) = 1"
proof -
  let ?i = "Some ''e1''" and ?g = "\<lambda>_::string. GotExam exampleExam"
  have a: "exam (initialPage 0) = None"
    by (simp add: initialPage_def)
  have b: "exam (loadExam ?i Map.empty ?g (initialPage 0)) = Some exampleExam"
    by (simp add: loadExam_def loadFromDatabase_def finishLoad_def exampleExam_def sectionA_def)
  have c: "0 < duration exampleExam" "duration exampleExam = 1"
    by (simp_all add: exampleExam_def)
  show ?thesis
    using countdown_finalizes_once [OF a b c(1), of 59] countdown_finalizes_once [OF a b c(1), of 60] countdown_finalizes_once [OF a b c(1), of 100] a b c
    by simp
qed

section \<open>Facts about the Result Persister\<close>

lemma touchExams_keeps_other_keys:
  "k \<noteq> ''exams'' \<Longrightarrow> touchExams eid later p storage = (p', storage', effs) \<Longrightarrow> storage' k = storage k"
  by (auto simp: touchExams_def Let_def split: option.splits stored.splits found.splits)

lemma fallback_key_not_exams: "''examResult_'' @ eid \<noteq> ''exams''"
  by simp

text \<open>
  Claim C6. In every submission (an exam is loaded and the route has an identifier)
  the first effect is the write of the serialized Result under the key
  \<^verbatim>\<open>examResult_<examId>\<close> and the second the call of the remote save; the key holds
  that Result when \<open>handleSubmit\<close> is done, and the last effect is the navigation to
  the results view. If the remote save is rejected, the effects are exactly: the
  write, the rejected call, the logged error, the navigation; and the storage is the
  old one with the Result under the key.
\<close>

theorem fallback_written_before_remote_save:
  assumes "exam p = Some e" and "eid \<noteq> []"
      and "handleSubmit (Some eid) email saveResult now later p storage = (p', storage', effs)"
      and "r = computeResults e (answers_st p) (startTime p) now"
  shows "take 2 effs = [SetItem (''examResult_'' @ eid) (ResultsJson r), SaveResult eid (userIdOf email) r]
       \<and> storage' (''examResult_'' @ eid) = Some (ResultsJson r)
       \<and> last effs = Navigate (''/exam/'' @ eid @ ''/result'')
       \<and> (\<not> saveResult eid (userIdOf email) r \<longrightarrow>
            effs = [SetItem (''examResult_'' @ eid) (ResultsJson r), SaveResult eid (userIdOf email) r,
                    LogError, Navigate (''/exam/'' @ eid @ ''/result'')]
            \<and> storage' = storage(''examResult_'' @ eid \<mapsto> ResultsJson r))"
proof (cases "saveResult eid (userIdOf email) r")
  case False
  then show ?thesis
    using assms by (auto simp: handleSubmit_def Let_def)
next
  case True
  obtain p2 storage2 rest where
    t: "touchExams eid later (p\<lparr> isLoading := True \<rparr>) (storage(''examResult_'' @ eid \<mapsto> ResultsJson r))
          = (p2, storage2, rest)"
    by (cases "touchExams eid later (p\<lparr> isLoading := True \<rparr>) (storage(''examResult_'' @ eid \<mapsto> ResultsJson r))") auto
  have h: "storage' = storage2"
    "effs = [SetItem (''examResult_'' @ eid) (ResultsJson r), SaveResult eid (userIdOf email) r]
        @ rest @ [Navigate (''/exam/'' @ eid @ ''/result'')]"
    using assms True t by (auto simp: handleSubmit_def Let_def)
  have "storage2 (''examResult_'' @ eid) = Some (ResultsJson r)"
    using touchExams_keeps_other_keys[OF fallback_key_not_exams t] by simp
  then show ?thesis
    using True h by simp
qed

text \<open>A submission of the example with no answers, from an anonymous user, rejected.\<close>

theorem fallback_written_before_remote_save_witness:
  "exam (pageAt exampleExam 0 0) = Some exampleExam \<and> ''e1'' \<noteq> []
   \<and> handleSubmit (Some ''e1'') None alwaysFails 5000 6000 (pageAt exampleExam 0 0) Map.empty
       = ((pageAt exampleExam 0 0)\<lparr> isLoading := True \<rparr>,
          [''examResult_e1'' \<mapsto> ResultsJson (computeResults exampleExam Map.empty 0 5000)],
          [SetItem ''examResult_e1'' (ResultsJson (computeResults exampleExam Map.empty 0 5000)),
           SaveResult ''e1'' ''anonymous'' (computeResults exampleExam Map.empty 0 5000),
           LogError, Navigate ''/exam/e1/result''])"
proof -
  have a: "exam (pageAt exampleExam 0 0) = Some exampleExam" "''e1'' \<noteq> []"
    "answers_st (pageAt exampleExam 0 0) = Map.empty" "startTime (pageAt exampleExam 0 0) = 0"
    by (simp_all add: pageAt_def initialPage_def)
  obtain p' storage' effs where
    h: "handleSubmit (Some ''e1'') None alwaysFails 5000 6000 (pageAt exampleExam 0 0) Map.empty = (p', storage', effs)"
    by (cases "handleSubmit (Some ''e1'') None alwaysFails 5000 6000 (pageAt exampleExam 0 0) Map.empty") auto
  have p: "p' = (pageAt exampleExam 0 0)\<lparr> isLoading := True \<rparr>"
    using h a by (simp add: handleSubmit_def Let_def alwaysFails_def)
  show ?thesis
    using fallback_written_before_remote_save [OF a(1) a(2) h refl] a p
    by (simp add: h alwaysFails_def userIdOf_def)
qed

section \<open>Facts about the navigation\<close>

lemma questionAt_SomeD:
  "questionAt e s q = Some y \<Longrightarrow>
     0 \<le> s \<and> s < int (length (sections e)) \<and> 0 \<le> q
     \<and> q < int (length (questions (sections e ! nat s)))"
  by (auto simp: questionAt_def Let_def split: if_splits)

lemma showsQuestion_cursor:
  assumes "showsQuestion p" "exam p = Some e"
  shows "0 \<le> currentSection p" "currentSection p < int (length (sections e))"
    "0 \<le> currentQuestion p"
    "currentQuestion p < int (length (questions (sections e ! nat (currentSection p))))"
  using assms by (auto simp: showsQuestion_def dest: questionAt_SomeD)

text \<open>
  Claim C7, as stated: for every exam, Previous from the first question of a later
  section moves to the last question of the section before, and Next from the last
  question of a section that is not the last moves to the first question of the
  section after. It fails where that section has no question. The database path of
  the loader takes the exam with the sections \<open>[q1, q2]\<close>, \<open>[]\<close> and \<open>[q3]\<close>, since one
  section has a question, and shows its first question. From its second question,
  the last of the first section, Next moves the cursor to index 0 of the empty
  section; the palette leads to the third section, and Previous from its first
  question moves the cursor to index -1 of the empty section. Neither cursor
  addresses a question, and the page leaves its question view.
\<close>

theorem crossing_into_empty_section_finds_no_question:
  "loadExam (Some ''e3'') Map.empty (\<lambda>_. GotExam gapExam) (initialPage 0) = pageAt gapExam 0 0
   \<and> showsQuestion (pageAt gapExam 0 1)
   \<and> clickNext (pageAt gapExam 0 1) = pageAt gapExam 1 0
   \<and> questionAt gapExam 1 0 = None
   \<and> showsQuestion (clickNext (pageAt gapExam 0 1)) = False
   \<and> clickPalette 2 0 (pageAt gapExam 0 0) = pageAt gapExam 2 0
   \<and> showsQuestion (pageAt gapExam 2 0)
   \<and> clickPrevious (pageAt gapExam 2 0) = pageAt gapExam 1 (- 1)
   \<and> questionAt gapExam 1 (- 1) = None
   \<and> showsQuestion (clickPrevious (pageAt gapExam 2 0)) = False"
proof -
  have l: "sections gapExam = [sectionA, emptySection, sectionB]" "questions sectionA = [q1, q2]"
    "questions emptySection = []" "questions sectionB = [q3]" "duration gapExam = 1"
    by (simp_all add: example_defs)
  have load: "loadExam (Some ''e3'') Map.empty (\<lambda>_. GotExam gapExam) (initialPage 0) = pageAt gapExam 0 0"
    by (simp add: loadExam_def loadFromDatabase_def finishLoad_def pageAt_def initialPage_def l)
  have q: "questionAt gapExam 0 0 = Some q1" "questionAt gapExam 0 1 = Some q2"
    "questionAt gapExam 1 0 = None" "questionAt gapExam 1 (- 1) = None"
    "questionAt gapExam 2 0 = Some q3"
    by (simp_all add: questionAt_def l)
  have s: "showsQuestion (pageAt gapExam cs cq) = (questionAt gapExam cs cq \<noteq> None)" for cs cq
    by (simp add: showsQuestion_def pageAt_def initialPage_def)
  have n: "clickNext (pageAt gapExam 0 1) = pageAt gapExam 1 0"
    using s[of 0 1] q by (simp add: clickNext_def pageAt_def l)
  have j: "clickPalette 2 0 (pageAt gapExam 0 0) = pageAt gapExam 2 0"
    using s[of 0 0] q by (simp add: clickPalette_def pageAt_def)
  have b: "clickPrevious (pageAt gapExam 2 0) = pageAt gapExam 1 (- 1)"
    using s[of 2 0] q by (simp add: clickPrevious_def pageAt_def l)
  show ?thesis
    using load q n j b by (simp add: s)
qed

text \<open>
  Claim C7, amended. Let the page show question \<open>cq\<close> of section \<open>cs\<close> of its exam. Previous
  does nothing at question 0 of section 0; from question 0 of a later section it
  moves to the last index of the section before, which is the last question of that
  section if it has one; from a later question it moves one question back. Next
  does nothing at the last question of the last section; from the last question of
  another section it moves to index 0 of the section after, which is the first
  question of that section if it has one; from an earlier question it moves one
  question on. Where the section moved to has no question, the cursor addresses no
  question.
\<close>

theorem cursor_navigation:
  assumes "showsQuestion p" and "exam p = Some e"
      and "cs = currentSection p" and "cq = currentQuestion p"
      and "n = int (length (questions (sections e ! nat cs)))"
      and "m = int (length (sections e))"
  shows "(cs = 0 \<and> cq = 0 \<longrightarrow> clickPrevious p = p)
       \<and> (0 < cs \<and> cq = 0 \<longrightarrow>
            clickPrevious p = p\<lparr> currentSection := cs - 1,
               currentQuestion := int (length (questions (sections e ! nat (cs - 1)))) - 1 \<rparr>
            \<and> (questions (sections e ! nat (cs - 1)) \<noteq> [] \<longrightarrow>
                 questionAt e (currentSection (clickPrevious p)) (currentQuestion (clickPrevious p))
                   = Some (last (questions (sections e ! nat (cs - 1)))))
            \<and> (questions (sections e ! nat (cs - 1)) = [] \<longrightarrow>
                 questionAt e (currentSection (clickPrevious p)) (currentQuestion (clickPrevious p))
                   = None))
       \<and> (0 < cq \<longrightarrow> clickPrevious p = p\<lparr> currentQuestion := cq - 1 \<rparr>
            \<and> questionAt e cs (cq - 1) = Some (questions (sections e ! nat cs) ! nat (cq - 1)))
       \<and> (cs = m - 1 \<and> cq = n - 1 \<longrightarrow> clickNext p = p)
       \<and> (cs < m - 1 \<and> cq = n - 1 \<longrightarrow>
            clickNext p = p\<lparr> currentSection := cs + 1, currentQuestion := 0 \<rparr>
            \<and> (questions (sections e ! nat (cs + 1)) \<noteq> [] \<longrightarrow>
                 questionAt e (currentSection (clickNext p)) (currentQuestion (clickNext p))
                   = Some (hd (questions (sections e ! nat (cs + 1)))))
            \<and> (questions (sections e ! nat (cs + 1)) = [] \<longrightarrow>
                 questionAt e (currentSection (clickNext p)) (currentQuestion (clickNext p))
                   = None))
       \<and> (cq < n - 1 \<longrightarrow> clickNext p = p\<lparr> currentQuestion := cq + 1 \<rparr>
            \<and> questionAt e cs (cq + 1) = Some (questions (sections e ! nat cs) ! nat (cq + 1)))"
proof -
  note c = showsQuestion_cursor[OF assms(1,2)]
  have prev0: "cs = 0 \<and> cq = 0 \<longrightarrow> clickPrevious p = p"
    using assms by (simp add: clickPrevious_def)
  have prevS: "0 < cs \<and> cq = 0 \<longrightarrow>
      clickPrevious p = p\<lparr> currentSection := cs - 1,
         currentQuestion := int (length (questions (sections e ! nat (cs - 1)))) - 1 \<rparr>"
    using assms by (simp add: clickPrevious_def)
  have prevQ: "0 < cs \<and> cq = 0 \<and> questions (sections e ! nat (cs - 1)) \<noteq> [] \<longrightarrow>
      questionAt e (cs - 1) (int (length (questions (sections e ! nat (cs - 1)))) - 1)
        = Some (last (questions (sections e ! nat (cs - 1))))"
    using assms c by (auto simp: questionAt_def Let_def last_conv_nth nat_diff_distrib')
  have prevE: "questions (sections e ! nat (cs - 1)) = [] \<longrightarrow>
      questionAt e (cs - 1) (int (length (questions (sections e ! nat (cs - 1)))) - 1) = None"
    by (simp add: questionAt_def)
  have nextE: "questions (sections e ! nat (cs + 1)) = [] \<longrightarrow> questionAt e (cs + 1) 0 = None"
    by (simp add: questionAt_def)
  have prevI: "0 < cq \<longrightarrow> clickPrevious p = p\<lparr> currentQuestion := cq - 1 \<rparr>
      \<and> questionAt e cs (cq - 1) = Some (questions (sections e ! nat cs) ! nat (cq - 1))"
    using assms c by (auto simp: clickPrevious_def questionAt_def Let_def)
  have nextL: "cs = m - 1 \<and> cq = n - 1 \<longrightarrow> clickNext p = p"
    using assms by (simp add: clickNext_def Let_def)
  have nextS: "cs < m - 1 \<and> cq = n - 1 \<longrightarrow>
      clickNext p = p\<lparr> currentSection := cs + 1, currentQuestion := 0 \<rparr>"
    using assms by (simp add: clickNext_def Let_def)
  have nextQ: "cs < m - 1 \<and> cq = n - 1 \<and> questions (sections e ! nat (cs + 1)) \<noteq> [] \<longrightarrow>
      questionAt e (cs + 1) 0 = Some (hd (questions (sections e ! nat (cs + 1))))"
    using assms c by (auto simp: questionAt_def Let_def hd_conv_nth)
  have nextI: "cq < n - 1 \<longrightarrow> clickNext p = p\<lparr> currentQuestion := cq + 1 \<rparr>
      \<and> questionAt e cs (cq + 1) = Some (questions (sections e ! nat cs) ! nat (cq + 1))"
    using assms c by (auto simp: clickNext_def questionAt_def Let_def)
  show ?thesis
    using prev0 prevS prevQ prevE prevI nextL nextS nextQ nextE nextI by simp
qed

text \<open>All the moves in the exam with the sections \<open>[q1, q2]\<close> and \<open>[q3]\<close>.\<close>

theorem cursor_navigation_witness:
  "showsQuestion (pageAt twoSectionExam 0 0) \<and> showsQuestion (pageAt twoSectionExam 0 1)
   \<and> showsQuestion (pageAt twoSectionExam 1 0)
   \<and> clickPrevious (pageAt twoSectionExam 0 0) = pageAt twoSectionExam 0 0
   \<and> clickNext (pageAt twoSectionExam 0 0) = pageAt twoSectionExam 0 1
   \<and> clickPrevious (pageAt twoSectionExam 0 1) = pageAt twoSectionExam 0 0
   \<and> clickNext (pageAt twoSectionExam 0 1) = pageAt twoSectionExam 1 0
   \<and> clickPrevious (pageAt twoSectionExam 1 0) = pageAt twoSectionExam 0 1
   \<and> clickNext (pageAt twoSectionExam 1 0) = pageAt twoSectionExam 1 0
   \<and> questionAt twoSectionExam 0 1 = Some q2 \<and> questionAt twoSectionExam 1 0 = Some q3"
proof -
  have s: "showsQuestion (pageAt twoSectionExam 0 0)" "showsQuestion (pageAt twoSectionExam 0 1)"
    "showsQuestion (pageAt twoSectionExam 1 0)"
    by (simp_all add: pageAt_def showsQuestion_def questionAt_def initialPage_def example_defs)
  have e: "exam (pageAt twoSectionExam cs cq) = Some twoSectionExam"
    "currentSection (pageAt twoSectionExam cs cq) = cs"
    "currentQuestion (pageAt twoSectionExam cs cq) = cq" for cs cq
    by (simp_all add: pageAt_def)
  have u: "(pageAt twoSectionExam cs cq)\<lparr> currentQuestion := cq' \<rparr> = pageAt twoSectionExam cs cq'"
    "(pageAt twoSectionExam cs cq)\<lparr> currentSection := cs', currentQuestion := cq' \<rparr> = pageAt twoSectionExam cs' cq'"
    for cs cq cs' cq'
    by (simp_all add: pageAt_def)
  have l: "sections twoSectionExam = [sectionA, sectionB]" "questions sectionA = [q1, q2]"
    "questions sectionB = [q3]"
    by (simp_all add: example_defs)
  have q: "questionAt twoSectionExam 0 1 = Some q2" "questionAt twoSectionExam 1 0 = Some q3"
    by (simp_all add: questionAt_def l)
  show ?thesis
    using cursor_navigation [OF s(1) e(1) refl refl refl refl] cursor_navigation [OF s(2) e(1) refl refl refl refl]
      cursor_navigation [OF s(3) e(1) refl refl refl refl] s q
    by (simp add: e u l)
qed

section \<open>Facts about the Answer Tracker\<close>

lemma tick_answers: "answers_st (fst (tick s)) = answers_st (fst s)"
  by (cases s) (simp add: tick_def timerCallback_def Let_def)

lemma clickPrevious_answers: "answers_st (clickPrevious p) = answers_st p"
  by (simp add: clickPrevious_def split: option.splits)

lemma clickNext_answers: "answers_st (clickNext p) = answers_st p"
  by (simp add: clickNext_def Let_def split: option.splits)

lemma clickPalette_answers: "answers_st (clickPalette s q p) = answers_st p"
  by (simp add: clickPalette_def split: option.splits)

lemma touchExams_answers:
  "touchExams eid later p storage = (p', storage', effs) \<Longrightarrow> answers_st p' = answers_st p"
  by (auto simp: touchExams_def Let_def split: option.splits stored.splits found.splits)

lemma handleSubmit_answers:
  "answers_st (fst (handleSubmit i em sv now later p storage)) = answers_st p"
  by (auto simp: handleSubmit_def Let_def split: option.splits prod.splits
      dest: touchExams_answers)

lemma step_dom: "dom (answers_st (fst s)) \<subseteq> dom (answers_st (fst (step ev s)))"
proof (cases s)
  case (Pair p storage)
  show ?thesis
  proof (cases ev)
    case (Submit i em sv now later)
    then show ?thesis
      using Pair handleSubmit_answers[of i em sv now later p storage]
      by (auto split: prod.splits)
  qed (use Pair in \<open>auto simp: handleAnswer_def tick_answers clickPrevious_answers clickNext_answers clickPalette_answers\<close>)
qed

lemma run_dom: "dom (answers_st (fst s)) \<subseteq> dom (answers_st (fst (fold step evs s)))"
proof (induction evs arbitrary: s)
  case Nil
  show ?case by simp
next
  case (Cons ev evs)
  have "dom (answers_st (fst s)) \<subseteq> dom (answers_st (fst (step ev s)))"
    by (rule step_dom)
  also have "\<dots> \<subseteq> dom (answers_st (fst (fold step evs (step ev s))))"
    by (rule Cons.IH)
  finally show ?case by simp
qed

text \<open>
  Claim C9. After \<open>handleAnswer questionId optionIndex\<close> the answer map has
  \<open>optionIndex\<close> for \<open>questionId\<close>, whatever it had before, and for every other
  question what it had before; nothing else of the page changes. No event of an
  attempt removes an entry: the answered questions before an event, or before any
  sequence of events, are among the answered questions after it.
\<close>

theorem answers_only_grow:
  "answers_st (handleAnswer questionId optionIndex p) q
     = (if q = questionId then Some optionIndex else answers_st p q)
   \<and> dom (answers_st (handleAnswer questionId optionIndex p)) = insert questionId (dom (answers_st p))
   \<and> (handleAnswer questionId optionIndex p)\<lparr> answers_st := answers_st p \<rparr> = p
   \<and> dom (answers_st (fst s)) \<subseteq> dom (answers_st (fst (step ev s)))
   \<and> dom (answers_st (fst s)) \<subseteq> dom (answers_st (fst (fold step evs s)))"
  using step_dom[of s ev] run_dom[of s evs]
  by (simp add: handleAnswer_def)


end
